theory Spec2Isabelle
  imports Main
begin

section \<open>JavaScript values\<close>

text \<open>
  The components handle primitive values (strings, numbers, booleans, \<open>undefined\<close>,
  \<open>null\<close>) and plain object literals whose properties hold primitives. The number type
  is a parameter \<open>'n\<close>: nothing in the components computes with numbers, they are only
  converted to strings and tested for truthiness, so the two conversions of the language
  are passed along in a record.
\<close>

datatype 'n jsval = JUndefined | JNull | JBool bool | JNum 'n | JStr string

record 'n number_ops =
  Number_toString :: "'n \<Rightarrow> string"
  Number_toBoolean :: "'n \<Rightarrow> bool"

text \<open>The conversion a template literal \<^verbatim>\<open>`${v}`\<close> applies to a primitive.\<close>

fun ToString :: "'n number_ops \<Rightarrow> 'n jsval \<Rightarrow> string" where
  "ToString js JUndefined = ''undefined''"
| "ToString js JNull = ''null''"
| "ToString js (JBool b) = (if b then ''true'' else ''false'')"
| "ToString js (JNum n) = Number_toString js n"
| "ToString js (JStr s) = s"

text \<open>The truthiness test of \<^verbatim>\<open>c ? a : b\<close> and \<^verbatim>\<open>if (c)\<close> on a primitive.\<close>

fun ToBoolean :: "'n number_ops \<Rightarrow> 'n jsval \<Rightarrow> bool" where
  "ToBoolean js JUndefined = False"
| "ToBoolean js JNull = False"
| "ToBoolean js (JBool b) = b"
| "ToBoolean js (JNum n) = Number_toBoolean js n"
| "ToBoolean js (JStr s) = (s \<noteq> [])"

text \<open>
  A plain object literal is a finite map from property names to values; a later entry
  of the literal overrides an earlier one, as map update does. Reading a property the
  object does not have yields \<open>undefined\<close>. (The components read only the keys
  \<open>x\<close>, \<open>y\<close>, \<open>title\<close>, \<open>prefix\<close> and \<open>suffix\<close>, none of which is inherited.)
\<close>

type_synonym 'n object = "string \<rightharpoonup> 'n jsval"

definition Get :: "'n object \<Rightarrow> string \<Rightarrow> 'n jsval" where
  "Get ob key = (case ob key of None \<Rightarrow> JUndefined | Some v \<Rightarrow> v)"

text \<open>
  The \<open>formatter\<close> field holds \<open>null\<close>, \<open>undefined\<close> or a function
  (\<^verbatim>\<open>@type {Function}\<close>). A function is modelled as a function of its argument: it is
  called with one value and its result is interpolated into a string. A formatter that
  itself assigns fields of the element or reads anything but its argument is outside
  this model.
\<close>

datatype 'n callback = Undefined | Null | Function "'n jsval \<Rightarrow> 'n jsval"

text \<open>
  A sample number type for concrete examples: the integers, printed in decimal as
  \<^verbatim>\<open>Number.prototype.toString\<close> prints an integer of magnitude below \<open>10\<^sup>2\<^sup>1\<close>, and
  falsy exactly at zero.
\<close>

fun digits :: "nat \<Rightarrow> string" where
  "digits n = (if n < 10 then [''0123456789'' ! n]
               else digits (n div 10) @ [''0123456789'' ! (n mod 10)])"

declare digits.simps [simp del]

definition int_toString :: "int \<Rightarrow> string" where
  "int_toString i = (if i < 0 then CHR ''-'' # digits (nat (- i)) else digits (nat i))"

definition int_ops :: "int number_ops" where
  "int_ops = \<lparr>Number_toString = int_toString, Number_toBoolean = (\<lambda>i. i \<noteq> 0)\<rparr>"


section \<open>The element's fields\<close>

text \<open>
  Both classes, \<open>TitleBar\<close> and \<open>TitleBarTypes\<close>, have the same four fields. Whatever
  else an element carries (the state of its base class) is the extension part of the
  record scheme.
\<close>

record 'n element =
  title :: "'n jsval"
  darkMode :: "'n jsval"
  bar :: "'n object"
  formatter :: "'n callback"


section \<open>The static property declarations\<close>

datatype js_type = String | Boolean | Object

record property_declaration =
  type :: js_type
  reflect :: bool
  attribute :: "string option"

text \<open>
  \<^verbatim>\<open>static get properties()\<close> returns an object literal; its keys in order are what
  \<^verbatim>\<open>Object.keys\<close> lists. An option the literal leaves out (\<open>reflect\<close>, \<open>attribute\<close>)
  is \<open>False\<close>, respectively \<open>None\<close>.
\<close>

definition TitleBar_properties :: "(string \<times> property_declaration) list" where
  "TitleBar_properties =
     [(''title'', \<lparr>type = String, reflect = False, attribute = None\<rparr>),
      (''darkMode'', \<lparr>type = Boolean, reflect = True, attribute = Some ''dark-mode''\<rparr>),
      (''bar'', \<lparr>type = Object, reflect = False, attribute = None\<rparr>)]"

definition TitleBarTypes_properties :: "(string \<times> property_declaration) list" where
  "TitleBarTypes_properties =
     [(''title'', \<lparr>type = String, reflect = False, attribute = None\<rparr>),
      (''darkMode'', \<lparr>type = Boolean, reflect = True, attribute = Some ''dark-mode''\<rparr>),
      (''bar'', \<lparr>type = Object, reflect = False, attribute = None\<rparr>)]"

definition Object_keys :: "(string \<times> 'a) list \<Rightarrow> string list" where
  "Object_keys ob = map fst ob"


section \<open>Constructors\<close>

text \<open>
  After \<^verbatim>\<open>super()\<close> has produced the element \<open>this\<close>, each constructor assigns the four
  fields in turn.
\<close>

definition TitleBar_constructor ::
    "('n::zero, 'z) element_scheme \<Rightarrow> ('n, 'z) element_scheme" where
  "TitleBar_constructor this =
     (let this = this\<lparr>title := JStr ''You are awesome''\<rparr>;
          this = this\<lparr>darkMode := JBool False\<rparr>;
          this = this\<lparr>bar := [''x'' \<mapsto> JNum 0, ''y'' \<mapsto> JNum 0, ''title'' \<mapsto> JStr ''I am dot'']\<rparr>;
          this = this\<lparr>formatter := Null\<rparr>
      in this)"

definition TitleBarTypes_constructor ::
    "('n::zero, 'z) element_scheme \<Rightarrow> ('n, 'z) element_scheme" where
  "TitleBarTypes_constructor this =
     (let this = this\<lparr>title := JStr ''You are awesome''\<rparr>;
          this = this\<lparr>darkMode := JBool False\<rparr>;
          this = this\<lparr>bar := [''x'' \<mapsto> JNum 0, ''y'' \<mapsto> JNum 0, ''title'' \<mapsto> JStr ''I am dot'']\<rparr>;
          this = this\<lparr>formatter := Null\<rparr>
      in this)"


section \<open>format\<close>

text \<open>
  Methods take the element and return their result together with the element, so that
  what a method does to the fields is part of its value.

  \<open>TitleBar.format(value)\<close> returns the formatter's result, or the value itself. (The
  parameter \<open>value\<close> of both \<open>format\<close> methods is written \<open>val\<close>.)
\<close>

definition TitleBar_format ::
    "'n jsval \<Rightarrow> ('n, 'z) element_scheme \<Rightarrow> 'n jsval \<times> ('n, 'z) element_scheme" where
  "TitleBar_format val this =
     (case formatter this of
        Function f \<Rightarrow> (f val, this)
      | _ \<Rightarrow> (val, this))"

text \<open>
  \<^verbatim>\<open>format(value, { prefix, suffix = '' } = { prefix: '' })\<close>: the second argument is
  \<open>None\<close> when the caller leaves it out, and then the default object
  \<^verbatim>\<open>{ prefix: '' }\<close> is destructured in its place. \<open>prefix\<close> is read as it is;
  \<open>suffix\<close> is replaced by the empty string when it is \<open>undefined\<close>.
\<close>

definition TitleBarTypes_format ::
    "'n number_ops \<Rightarrow> 'n jsval \<Rightarrow> 'n object option \<Rightarrow> ('n, 'z) element_scheme
       \<Rightarrow> string \<times> ('n, 'z) element_scheme" where
  "TitleBarTypes_format js val options this =
     (let opts = (case options of None \<Rightarrow> [''prefix'' \<mapsto> JStr ''''] | Some ob \<Rightarrow> ob);
          prefix = Get opts ''prefix'';
          suffix = (if Get opts ''suffix'' = JUndefined then JStr '''' else Get opts ''suffix'');
          formattedValue = (case formatter this of Function f \<Rightarrow> f val | _ \<Rightarrow> val)
      in (ToString js prefix @ ToString js formattedValue @ ToString js suffix, this))"


section \<open>render\<close>

text \<open>
  \<^verbatim>\<open>html`...`\<close> pairs the constant template text with the values of its three holes:
  the child of the heading, the \<open>style\<close> of the marker and the \<open>title\<close> of the marker.
\<close>

record 'n template_values =
  h1_child :: "'n jsval"
  dot_style :: "'n jsval"
  dot_title :: "'n jsval"

definition TitleBar_render ::
    "'n number_ops \<Rightarrow> ('n, 'z) element_scheme
       \<Rightarrow> 'n template_values \<times> ('n, 'z) element_scheme" where
  "TitleBar_render js this =
     (let (heading, this) = TitleBar_format (title this) this
      in (\<lparr>h1_child = heading,
           dot_style = JStr (''left: '' @ ToString js (Get (bar this) ''x'') @ ''px; top: ''
                              @ ToString js (Get (bar this) ''y'')),
           dot_title = Get (bar this) ''title''\<rparr>, this))"

definition TitleBarTypes_render ::
    "'n number_ops \<Rightarrow> ('n, 'z) element_scheme
       \<Rightarrow> 'n template_values \<times> ('n, 'z) element_scheme" where
  "TitleBarTypes_render js this =
     (let (heading, this) =
            TitleBarTypes_format js (title this) (Some [''prefix'' \<mapsto> JStr '''']) this
      in (\<lparr>h1_child = JStr heading,
           dot_style = JStr (''left: '' @ ToString js (Get (bar this) ''x'') @ ''px; top: ''
                              @ ToString js (Get (bar this) ''y'')),
           dot_title = (if ToBoolean js (Get (bar this) ''title'')
                        then Get (bar this) ''title'' else JStr '''')\<rparr>, this))"


section \<open>The reactive base class\<close>

text \<open>
  Modelled from the spec: the state that the base class \<open>LitElement\<close> (imported from the
  package \<open>lit-element\<close>, whose code is not in the repository) keeps for an element
  besides its four fields: the boundary attributes of the element, whether a re-render
  is scheduled, and the number of render passes that have run.
\<close>

record 'n host = "'n element" +
  attributes :: "string \<rightharpoonup> string"
  updateRequested :: bool
  renderCount :: nat

text \<open>
  Modelled from the spec: scheduling a re-render with the host's mechanism, which is
  missing with the base class. Requests made before the next render pass coalesce into
  one.
\<close>

definition requestUpdate :: "'n host \<Rightarrow> 'n host" where
  "requestUpdate h = h\<lparr>updateRequested := True\<rparr>"

text \<open>
  Modelled from the spec: assignment to a field, which the missing base class intercepts
  for the keys of the static \<open>properties\<close>. The field is written; a re-render is
  scheduled when the field is a declared property and its value changes; assigning any
  other field schedules nothing. Whether the new value counts as a change of the old one
  (by reference for an object, by value for a primitive) is decided by the caller of
  this function.
\<close>

definition assign ::
    "(string \<times> property_declaration) list \<Rightarrow> string \<Rightarrow> bool \<Rightarrow> ('n host \<Rightarrow> 'n host)
       \<Rightarrow> 'n host \<Rightarrow> 'n host" where
  "assign properties name changed write h =
     (if name \<in> set (Object_keys properties) \<and> changed
      then requestUpdate (write h) else write h)"

text \<open>
  Modelled from the spec: the assignment \<^verbatim>\<open>el.title = v\<close> under the missing base class.
  The change test \<open>hasChanged\<close> is a parameter here and in the three assignments below,
  since object references are not modelled.
\<close>

definition set_title ::
    "(string \<times> property_declaration) list \<Rightarrow> ('n jsval \<Rightarrow> 'n jsval \<Rightarrow> bool) \<Rightarrow> 'n jsval
       \<Rightarrow> 'n host \<Rightarrow> 'n host" where
  "set_title properties hasChanged v h =
     assign properties ''title'' (hasChanged v (title h)) (\<lambda>h. h\<lparr>title := v\<rparr>) h"

text \<open>
  Modelled from the spec: the assignment \<^verbatim>\<open>el.darkMode = v\<close> under the missing base
  class.
\<close>

definition set_darkMode ::
    "(string \<times> property_declaration) list \<Rightarrow> ('n jsval \<Rightarrow> 'n jsval \<Rightarrow> bool) \<Rightarrow> 'n jsval
       \<Rightarrow> 'n host \<Rightarrow> 'n host" where
  "set_darkMode properties hasChanged v h =
     assign properties ''darkMode'' (hasChanged v (darkMode h)) (\<lambda>h. h\<lparr>darkMode := v\<rparr>) h"

text \<open>
  Modelled from the spec: the assignment \<^verbatim>\<open>el.bar = v\<close> under the missing base class.
\<close>

definition set_bar ::
    "(string \<times> property_declaration) list \<Rightarrow> ('n object \<Rightarrow> 'n object \<Rightarrow> bool) \<Rightarrow> 'n object
       \<Rightarrow> 'n host \<Rightarrow> 'n host" where
  "set_bar properties hasChanged v h =
     assign properties ''bar'' (hasChanged v (bar h)) (\<lambda>h. h\<lparr>bar := v\<rparr>) h"

text \<open>
  Modelled from the spec: the assignment \<^verbatim>\<open>el.formatter = f\<close> under the missing base
  class.
\<close>

definition set_formatter ::
    "(string \<times> property_declaration) list \<Rightarrow> ('n callback \<Rightarrow> 'n callback \<Rightarrow> bool)
       \<Rightarrow> 'n callback \<Rightarrow> 'n host \<Rightarrow> 'n host" where
  "set_formatter properties hasChanged f h =
     assign properties ''formatter'' (hasChanged f (formatter h)) (\<lambda>h. h\<lparr>formatter := f\<rparr>) h"

text \<open>
  Modelled from the spec: the attribute that a declared property is mirrored to by the
  missing base class, if its declaration says \<open>reflect\<close>.
\<close>

definition reflectedAttribute ::
    "(string \<times> property_declaration) list \<Rightarrow> string \<Rightarrow> string option" where
  "reflectedAttribute properties name =
     (case map_of properties name of
        None \<Rightarrow> None
      | Some d \<Rightarrow> if reflect d then attribute d else None)"

text \<open>
  Modelled from the spec: the attribute whose external changes the missing base class
  passes on to a declared property.
\<close>

definition observedAttribute ::
    "(string \<times> property_declaration) list \<Rightarrow> string \<Rightarrow> string option" where
  "observedAttribute properties name =
     (case map_of properties name of
        None \<Rightarrow> None
      | Some d \<Rightarrow> attribute d)"

text \<open>
  Modelled from the spec: one render cycle of the missing base class. When a re-render is
  scheduled, the reflected boolean property \<open>darkMode\<close> is written to its attribute (the
  attribute is present, with the empty string as its text, exactly when the field is
  truthy), one render pass runs, and the request is cleared. When none is scheduled,
  nothing happens.
\<close>

definition performUpdate ::
    "'n number_ops \<Rightarrow> (string \<times> property_declaration) list \<Rightarrow> 'n host \<Rightarrow> 'n host" where
  "performUpdate js properties h =
     (if updateRequested h then
        let h = (case reflectedAttribute properties ''darkMode'' of
                   None \<Rightarrow> h
                 | Some a \<Rightarrow>
                     h\<lparr>attributes :=
                         (attributes h)(a := (if ToBoolean js (darkMode h) then Some '''' else None))\<rparr>)
        in h\<lparr>renderCount := renderCount h + 1, updateRequested := False\<rparr>
      else h)"

text \<open>
  Modelled from the spec: the reaction of the missing base class to an external change of
  an attribute to \<open>value\<close> (\<open>None\<close> when the attribute is removed). The attribute of
  the boolean property \<open>darkMode\<close> sets the field to whether the attribute is present.
\<close>

definition attributeChangedCallback ::
    "(string \<times> property_declaration) list \<Rightarrow> ('n jsval \<Rightarrow> 'n jsval \<Rightarrow> bool) \<Rightarrow> string
       \<Rightarrow> string option \<Rightarrow> 'n host \<Rightarrow> 'n host" where
  "attributeChangedCallback properties hasChanged name val h =
     (let h = h\<lparr>attributes := (attributes h)(name := val)\<rparr>
      in if observedAttribute properties ''darkMode'' = Some name
         then set_darkMode properties hasChanged (JBool (val \<noteq> None)) h
         else h)"


section \<open>Properties of format\<close>

lemma Get_simps [simp]:
  "ob key = None \<Longrightarrow> Get ob key = JUndefined"
  "ob key = Some v \<Longrightarrow> Get ob key = v"
  by (simp_all add: Get_def)

text \<open>
  C1. Whatever the value and whatever the \<open>formatter\<close> field holds, \<open>format\<close> called with
  an options object that gives a string for \<open>prefix\<close> and for \<open>suffix\<close> returns the prefix,
  then the string of the formatted value, then the suffix, where the formatted value is
  the formatter's result when the field holds a function and the value itself otherwise.
  Called without options it returns the string of the formatted value alone.
\<close>

theorem TitleBarTypes_format_concat:
  "(options ''prefix'' = Some (JStr p) \<and> options ''suffix'' = Some (JStr s) \<longrightarrow>
      fst (TitleBarTypes_format js v (Some options) this)
        = p @ ToString js (case formatter this of Function f \<Rightarrow> f v | _ \<Rightarrow> v) @ s)
   \<and> fst (TitleBarTypes_format js v None this)
        = ToString js (case formatter this of Function f \<Rightarrow> f v | _ \<Rightarrow> v)"
  by (simp add: TitleBarTypes_format_def Let_def)

theorem TitleBarTypes_format_concat_witness:
  "fst (TitleBarTypes_format int_ops (JStr ''You are awesome'')
          (Some [''prefix'' \<mapsto> JStr ''<'', ''suffix'' \<mapsto> JStr ''>''])
          \<lparr>title = JStr ''t'', darkMode = JBool True, bar = Map.empty,
           formatter = Function (\<lambda>v. JStr (ToString int_ops v @ '' for real!''))\<rparr>)
     = ''<You are awesome for real!>''
   \<and> fst (TitleBarTypes_format int_ops (JNum 7) None
          \<lparr>title = JStr ''t'', darkMode = JBool True, bar = Map.empty, formatter = Null\<rparr>)
     = ''7''"
  using TitleBarTypes_format_concat
    [of "[''prefix'' \<mapsto> JStr ''<'', ''suffix'' \<mapsto> JStr ''>'']" "''<''" "''>''" int_ops
        "JStr ''You are awesome''"
        "\<lparr>title = JStr ''t'', darkMode = JBool True, bar = Map.empty,
          formatter = Function (\<lambda>v. JStr (ToString int_ops v @ '' for real!''))\<rparr>"]
  by (simp add: TitleBarTypes_format_def int_ops_def int_toString_def digits.simps)

text \<open>
  C10. When \<open>format\<close> is given an options object without a \<open>prefix\<close> key, the prefix is
  \<open>undefined\<close> and the result begins with the text \<open>undefined\<close>, whether or not the
  object has a \<open>suffix\<close>. A missing \<open>suffix\<close> key alone is replaced by the empty string.
  The default object, with its empty prefix, stands in only for an options argument that
  is left out altogether.
\<close>

theorem TitleBarTypes_format_prefix_omitted:
  "(options ''prefix'' = None \<longrightarrow>
      fst (TitleBarTypes_format js v (Some options) this)
        = ''undefined'' @ ToString js (case formatter this of Function f \<Rightarrow> f v | _ \<Rightarrow> v)
            @ (case options ''suffix'' of
                 None \<Rightarrow> []
               | Some u \<Rightarrow> if u = JUndefined then [] else ToString js u))
   \<and> (options ''prefix'' = Some (JStr p) \<and> options ''suffix'' = None \<longrightarrow>
      fst (TitleBarTypes_format js v (Some options) this)
        = p @ ToString js (case formatter this of Function f \<Rightarrow> f v | _ \<Rightarrow> v))
   \<and> fst (TitleBarTypes_format js v None this)
        = fst (TitleBarTypes_format js v (Some [''prefix'' \<mapsto> JStr '''']) this)"
  by (simp add: TitleBarTypes_format_def split: option.splits)

theorem TitleBarTypes_format_prefix_omitted_witness:
  "fst (TitleBarTypes_format int_ops (JStr ''foo'') (Some Map.empty)
          \<lparr>title = JStr ''t'', darkMode = JBool False, bar = Map.empty, formatter = Null\<rparr>)
     = ''undefinedfoo''
   \<and> fst (TitleBarTypes_format int_ops (JStr ''foo'') (Some [''suffix'' \<mapsto> JStr ''!''])
          \<lparr>title = JStr ''t'', darkMode = JBool False, bar = Map.empty, formatter = Null\<rparr>)
     = ''undefinedfoo!''
   \<and> fst (TitleBarTypes_format int_ops (JStr ''foo'') (Some [''prefix'' \<mapsto> JStr ''...''])
          \<lparr>title = JStr ''t'', darkMode = JBool False, bar = Map.empty, formatter = Null\<rparr>)
     = ''...foo''"
  using
    TitleBarTypes_format_prefix_omitted
      [of Map.empty int_ops "JStr ''foo''"
          "\<lparr>title = JStr ''t'', darkMode = JBool False, bar = Map.empty, formatter = Null\<rparr>"]
    TitleBarTypes_format_prefix_omitted
      [of "[''suffix'' \<mapsto> JStr ''!'']" int_ops "JStr ''foo''"
          "\<lparr>title = JStr ''t'', darkMode = JBool False, bar = Map.empty, formatter = Null\<rparr>"]
    TitleBarTypes_format_prefix_omitted
      [of "[''prefix'' \<mapsto> JStr ''...'']" int_ops "JStr ''foo''"
          "\<lparr>title = JStr ''t'', darkMode = JBool False, bar = Map.empty, formatter = Null\<rparr>"
          "''...''"]
  by simp

text \<open>
  C9. \<open>format\<close> returns the element as it received it, extension part included, and on two
  elements whose \<open>formatter\<close> fields agree it returns the same string for the same
  arguments, whatever their other fields hold.
\<close>

theorem TitleBarTypes_format_pure:
  "snd (TitleBarTypes_format js v options this) = this
   \<and> (formatter a = formatter b \<longrightarrow>
        fst (TitleBarTypes_format js v options a) = fst (TitleBarTypes_format js v options b))"
  by (simp add: TitleBarTypes_format_def Let_def)

theorem TitleBarTypes_format_pure_witness:
  "fst (TitleBarTypes_format int_ops (JNum 3) (Some [''prefix'' \<mapsto> JStr ''#''])
          \<lparr>title = JStr ''one'', darkMode = JBool False, bar = Map.empty, formatter = Null\<rparr>)
     = fst (TitleBarTypes_format int_ops (JNum 3) (Some [''prefix'' \<mapsto> JStr ''#''])
          \<lparr>title = JStr ''two'', darkMode = JBool True, bar = [''x'' \<mapsto> JNum 1],
           formatter = Null\<rparr>)"
  using TitleBarTypes_format_pure
      [of int_ops "JNum 3" "Some [''prefix'' \<mapsto> JStr ''#'']"
          "\<lparr>title = JStr ''one'', darkMode = JBool False, bar = Map.empty, formatter = Null\<rparr>"
          "\<lparr>title = JStr ''one'', darkMode = JBool False, bar = Map.empty, formatter = Null\<rparr>"
          "\<lparr>title = JStr ''two'', darkMode = JBool True, bar = [''x'' \<mapsto> JNum 1],
            formatter = Null\<rparr>"]
  by simp


section \<open>Properties of the declarations and the constructors\<close>

text \<open>
  C2. The keys of \<open>TitleBar.properties\<close> are \<open>title\<close>, \<open>darkMode\<close> and \<open>bar\<close>: three
  keys, where the test of the class expects \<^verbatim>\<open>Object.keys(TitleBar.properties)\<close> to
  have length two.
\<close>

theorem TitleBar_properties_keys:
  "Object_keys TitleBar_properties = [''title'', ''darkMode'', ''bar'']
   \<and> length (Object_keys TitleBar_properties) = 3
   \<and> length (Object_keys TitleBar_properties) \<noteq> 2"
  by (simp add: Object_keys_def TitleBar_properties_def)

text \<open>
  C4. Each constructor leaves the element with \<open>title\<close> the string \<open>You are awesome\<close>,
  \<open>darkMode\<close> false, \<open>bar\<close> the object with \<open>x\<close> zero, \<open>y\<close> zero and \<open>title\<close> the
  string \<open>I am dot\<close>, and \<open>formatter\<close> null; nothing of the element besides these four
  fields is changed.
\<close>

theorem constructor_fields:
  "title (TitleBarTypes_constructor this) = JStr ''You are awesome''
   \<and> darkMode (TitleBarTypes_constructor this) = JBool False
   \<and> bar (TitleBarTypes_constructor this)
       = [''x'' \<mapsto> JNum 0, ''y'' \<mapsto> JNum 0, ''title'' \<mapsto> JStr ''I am dot'']
   \<and> dom (bar (TitleBarTypes_constructor this)) = {''x'', ''y'', ''title''}
   \<and> formatter (TitleBarTypes_constructor this) = Null
   \<and> element.more (TitleBarTypes_constructor this) = element.more this
   \<and> title (TitleBar_constructor this) = JStr ''You are awesome''
   \<and> darkMode (TitleBar_constructor this) = JBool False
   \<and> bar (TitleBar_constructor this)
       = [''x'' \<mapsto> JNum 0, ''y'' \<mapsto> JNum 0, ''title'' \<mapsto> JStr ''I am dot'']
   \<and> formatter (TitleBar_constructor this) = Null
   \<and> element.more (TitleBar_constructor this) = element.more this"
  by (auto simp add: TitleBarTypes_constructor_def TitleBar_constructor_def)


section \<open>Properties of render\<close>

text \<open>
  C6. With \<open>bar\<close> set to \<^verbatim>\<open>{ x: 1, y: 2 }\<close>, as the test sets it, both classes give the
  marker the style \<^verbatim>\<open>left: 1px; top: 2\<close>: the left offset carries the unit, the top
  offset does not.
\<close>

theorem render_style_top_has_no_unit:
  "dot_style (fst (TitleBarTypes_render int_ops
       \<lparr>title = JStr ''You are awesome'', darkMode = JBool True,
        bar = [''x'' \<mapsto> JNum 1, ''y'' \<mapsto> JNum 2], formatter = Null\<rparr>))
     = JStr ''left: 1px; top: 2''
   \<and> dot_style (fst (TitleBar_render int_ops
       \<lparr>title = JStr ''You are awesome'', darkMode = JBool True,
        bar = [''x'' \<mapsto> JNum 1, ''y'' \<mapsto> JNum 2], formatter = Null\<rparr>))
     = JStr ''left: 1px; top: 2''"
  by (simp add: TitleBarTypes_render_def TitleBar_render_def TitleBarTypes_format_def
      TitleBar_format_def int_ops_def int_toString_def digits.simps)

text \<open>
  C5, as the claim states it, fails for \<open>TitleBar\<close>: with \<open>bar\<close> set to
  \<^verbatim>\<open>{ x: 1, y: 2 }\<close> the value bound to the marker's title is \<open>undefined\<close>, not the
  empty string.
\<close>

theorem TitleBar_render_title_absent_counterexample:
  "bar \<lparr>title = JStr ''You are awesome'', darkMode = JBool True,
        bar = [''x'' \<mapsto> JNum (1::int), ''y'' \<mapsto> JNum 2], formatter = Null\<rparr> ''title'' = None
   \<and> dot_title (fst (TitleBar_render int_ops
       \<lparr>title = JStr ''You are awesome'', darkMode = JBool True,
        bar = [''x'' \<mapsto> JNum 1, ''y'' \<mapsto> JNum 2], formatter = Null\<rparr>)) \<noteq> JStr ''''"
  by (simp add: TitleBar_render_def TitleBar_format_def)

text \<open>
  C5, amended. In \<open>TitleBarTypes.render\<close> the value bound to the marker's title is the
  string \<open>bar.title\<close> when \<open>bar\<close> has a title, and the empty string when it has none.
  In \<open>TitleBar.render\<close> it is \<open>bar.title\<close> as it is: the title when \<open>bar\<close> has one, and
  \<open>undefined\<close> when it has none.
\<close>

theorem render_title_attribute:
  "(bar this ''title'' = Some (JStr s) \<longrightarrow>
      dot_title (fst (TitleBarTypes_render js this)) = JStr s
      \<and> dot_title (fst (TitleBar_render js this)) = JStr s)
   \<and> (bar this ''title'' = None \<longrightarrow>
      dot_title (fst (TitleBarTypes_render js this)) = JStr ''''
      \<and> dot_title (fst (TitleBar_render js this)) = JUndefined)"
  by (auto simp add: TitleBarTypes_render_def TitleBar_render_def TitleBarTypes_format_def
      TitleBar_format_def split: callback.splits)

theorem render_title_attribute_witness:
  "dot_title (fst (TitleBarTypes_render int_ops (TitleBarTypes_constructor
       \<lparr>title = JUndefined, darkMode = JUndefined, bar = Map.empty, formatter = Undefined\<rparr>)))
     = JStr ''I am dot''
   \<and> dot_title (fst (TitleBarTypes_render int_ops
       \<lparr>title = JStr ''You are awesome'', darkMode = JBool True,
        bar = [''x'' \<mapsto> JNum 1, ''y'' \<mapsto> JNum 2], formatter = Null\<rparr>)) = JStr ''''"
  using
    render_title_attribute
      [of "TitleBarTypes_constructor
             \<lparr>title = JUndefined, darkMode = JUndefined, bar = Map.empty, formatter = Undefined\<rparr>"
          "''I am dot''" int_ops]
    render_title_attribute
      [of "\<lparr>title = JStr ''You are awesome'', darkMode = JBool True,
            bar = [''x'' \<mapsto> JNum 1, ''y'' \<mapsto> JNum 2], formatter = Null\<rparr>"
          "''I am dot''" int_ops]
  by (simp add: TitleBarTypes_constructor_def)

text \<open>
  C7. \<open>render\<close> returns the element as it received it, extension part included; rendering
  a second time gives the same description as the first; and two elements that agree on
  \<open>title\<close>, \<open>darkMode\<close>, \<open>bar\<close> and \<open>formatter\<close> have the same description.
\<close>

theorem TitleBarTypes_render_pure_idempotent:
  "snd (TitleBarTypes_render js this) = this
   \<and> fst (TitleBarTypes_render js (snd (TitleBarTypes_render js this)))
       = fst (TitleBarTypes_render js this)
   \<and> (title a = title b \<and> darkMode a = darkMode b \<and> bar a = bar b \<and> formatter a = formatter b
        \<longrightarrow> fst (TitleBarTypes_render js a) = fst (TitleBarTypes_render js b))"
  by (simp add: TitleBarTypes_render_def TitleBarTypes_format_def Let_def)

theorem TitleBarTypes_render_pure_idempotent_witness:
  "fst (TitleBarTypes_render int_ops
          \<lparr>title = JStr ''You are awesome'', darkMode = JBool False,
           bar = [''x'' \<mapsto> JNum 1, ''y'' \<mapsto> JNum 2], formatter = Null\<rparr>)
     = fst (TitleBarTypes_render int_ops
          \<lparr>title = JStr ''You are awesome'', darkMode = JBool False,
           bar = [''x'' \<mapsto> JNum 1, ''y'' \<mapsto> JNum 2], formatter = Null,
           attributes = Map.empty, updateRequested = True, renderCount = 4\<rparr>)"
  using TitleBarTypes_render_pure_idempotent
      [of int_ops
          "\<lparr>title = JStr ''You are awesome'', darkMode = JBool False,
            bar = [''x'' \<mapsto> JNum 1, ''y'' \<mapsto> JNum 2], formatter = Null\<rparr>"
          "\<lparr>title = JStr ''You are awesome'', darkMode = JBool False,
            bar = [''x'' \<mapsto> JNum 1, ''y'' \<mapsto> JNum 2], formatter = Null\<rparr>"
          "\<lparr>title = JStr ''You are awesome'', darkMode = JBool False,
            bar = [''x'' \<mapsto> JNum 1, ''y'' \<mapsto> JNum 2], formatter = Null,
            attributes = Map.empty, updateRequested = True, renderCount = 4\<rparr>"]
  by simp


section \<open>Properties of the reactive base class\<close>

lemma formatter_not_declared:
  "''formatter'' \<notin> set (Object_keys TitleBarTypes_properties)"
  by (simp add: Object_keys_def TitleBarTypes_properties_def)

lemma observed_declared:
  "''title'' \<in> set (Object_keys TitleBarTypes_properties)"
  "''darkMode'' \<in> set (Object_keys TitleBarTypes_properties)"
  "''bar'' \<in> set (Object_keys TitleBarTypes_properties)"
  by (simp_all add: Object_keys_def TitleBarTypes_properties_def)

lemma darkMode_attribute:
  "reflectedAttribute TitleBarTypes_properties ''darkMode'' = Some ''dark-mode''"
  "observedAttribute TitleBarTypes_properties ''darkMode'' = Some ''dark-mode''"
  by (simp_all add: reflectedAttribute_def observedAttribute_def TitleBarTypes_properties_def)

text \<open>
  C3. \<open>formatter\<close> is not a key of the static \<open>properties\<close>, so assigning it writes the
  field and nothing else: no re-render is scheduled, no render pass is counted, and when
  none was scheduled before, the next render cycle runs no pass. Assigning a changed value
  to \<open>title\<close>, \<open>darkMode\<close> or \<open>bar\<close> schedules a re-render, and the next cycle runs one
  more pass.
\<close>

theorem formatter_assignment_schedules_nothing:
  "formatter (set_formatter TitleBarTypes_properties hcf f h) = f
   \<and> updateRequested (set_formatter TitleBarTypes_properties hcf f h) = updateRequested h
   \<and> renderCount (set_formatter TitleBarTypes_properties hcf f h) = renderCount h
   \<and> title (set_formatter TitleBarTypes_properties hcf f h) = title h
   \<and> darkMode (set_formatter TitleBarTypes_properties hcf f h) = darkMode h
   \<and> bar (set_formatter TitleBarTypes_properties hcf f h) = bar h
   \<and> (\<not> updateRequested h \<longrightarrow>
        renderCount (performUpdate js TitleBarTypes_properties
                       (set_formatter TitleBarTypes_properties hcf f h)) = renderCount h)
   \<and> (hc v (title h) \<longrightarrow>
        updateRequested (set_title TitleBarTypes_properties hc v h)
        \<and> renderCount (performUpdate js TitleBarTypes_properties
                         (set_title TitleBarTypes_properties hc v h)) = renderCount h + 1)
   \<and> (hc v (darkMode h) \<longrightarrow>
        updateRequested (set_darkMode TitleBarTypes_properties hc v h)
        \<and> renderCount (performUpdate js TitleBarTypes_properties
                         (set_darkMode TitleBarTypes_properties hc v h)) = renderCount h + 1)
   \<and> (hcb b (bar h) \<longrightarrow>
        updateRequested (set_bar TitleBarTypes_properties hcb b h)
        \<and> renderCount (performUpdate js TitleBarTypes_properties
                         (set_bar TitleBarTypes_properties hcb b h)) = renderCount h + 1)"
  by (simp add: set_formatter_def set_title_def set_darkMode_def set_bar_def assign_def
      requestUpdate_def performUpdate_def formatter_not_declared observed_declared
      darkMode_attribute Let_def)

theorem formatter_assignment_schedules_nothing_witness:
  "renderCount (performUpdate int_ops TitleBarTypes_properties
       (set_formatter TitleBarTypes_properties (\<lambda>a b. a \<noteq> b)
          (Function (\<lambda>v. JStr (ToString int_ops v @ '' for real!'')))
          \<lparr>title = JStr ''You are awesome'', darkMode = JBool False,
           bar = [''x'' \<mapsto> JNum 0, ''y'' \<mapsto> JNum 0, ''title'' \<mapsto> JStr ''I am dot''],
           formatter = Null, attributes = Map.empty, updateRequested = False,
           renderCount = 1\<rparr>)) = 1
   \<and> renderCount (performUpdate int_ops TitleBarTypes_properties
       (set_title TitleBarTypes_properties (\<lambda>a b. a \<noteq> b) (JStr ''Welcome to the jungle'')
          \<lparr>title = JStr ''You are awesome'', darkMode = JBool False,
           bar = [''x'' \<mapsto> JNum 0, ''y'' \<mapsto> JNum 0, ''title'' \<mapsto> JStr ''I am dot''],
           formatter = Null, attributes = Map.empty, updateRequested = False,
           renderCount = 1\<rparr>)) = 2
   \<and> renderCount (performUpdate int_ops TitleBarTypes_properties
       (set_darkMode TitleBarTypes_properties (\<lambda>a b. a \<noteq> b) (JStr ''Welcome to the jungle'')
          \<lparr>title = JStr ''You are awesome'', darkMode = JBool False,
           bar = [''x'' \<mapsto> JNum 0, ''y'' \<mapsto> JNum 0, ''title'' \<mapsto> JStr ''I am dot''],
           formatter = Null, attributes = Map.empty, updateRequested = False,
           renderCount = 1\<rparr>)) = 2
   \<and> renderCount (performUpdate int_ops TitleBarTypes_properties
       (set_bar TitleBarTypes_properties (\<lambda>a b. a \<noteq> b) [''x'' \<mapsto> JNum 1, ''y'' \<mapsto> JNum 2]
          \<lparr>title = JStr ''You are awesome'', darkMode = JBool False,
           bar = [''x'' \<mapsto> JNum 0, ''y'' \<mapsto> JNum 0, ''title'' \<mapsto> JStr ''I am dot''],
           formatter = Null, attributes = Map.empty, updateRequested = False,
           renderCount = 1\<rparr>)) = 2"
proof -
  let ?h = "\<lparr>title = JStr ''You are awesome'', darkMode = JBool False,
             bar = [''x'' \<mapsto> JNum (0::int), ''y'' \<mapsto> JNum 0, ''title'' \<mapsto> JStr ''I am dot''],
             formatter = Null, attributes = Map.empty, updateRequested = False,
             renderCount = 1\<rparr>"
  have changed_bar: "[''x'' \<mapsto> JNum (1::int), ''y'' \<mapsto> JNum 2] \<noteq> bar ?h"
  proof
    assume "[''x'' \<mapsto> JNum (1::int), ''y'' \<mapsto> JNum 2] = bar ?h"
    then have "[''x'' \<mapsto> JNum (1::int), ''y'' \<mapsto> JNum 2] ''title'' = bar ?h ''title''"
      by (rule arg_cong)
    then show False by simp
  qed
  show ?thesis
    using formatter_assignment_schedules_nothing
        [of "\<lambda>a b. a \<noteq> b" "Function (\<lambda>v. JStr (ToString int_ops v @ '' for real!''))" ?h
            int_ops "\<lambda>a b. a \<noteq> b" "JStr ''Welcome to the jungle''"
            "\<lambda>a b. a \<noteq> b" "[''x'' \<mapsto> JNum 1, ''y'' \<mapsto> JNum 2]"]
      changed_bar
    by simp
qed

text \<open>
  C8. \<open>darkMode\<close> is declared as a boolean property reflected to the attribute
  \<open>dark-mode\<close>. After \<open>darkMode\<close> is assigned and the next render cycle has run, the
  attribute is present exactly when the assigned value is truthy: when the assignment
  changes the value or a cycle was due anyway, the cycle writes the attribute; when
  neither is so, the attribute stays as it was, in step with a field whose truthiness
  the assignment has kept. An external change of the attribute sets the field to whether
  the attribute is now present.
\<close>

theorem darkMode_reflected_both_ways:
  "map_of TitleBarTypes_properties ''darkMode''
     = Some \<lparr>type = Boolean, reflect = True, attribute = Some ''dark-mode''\<rparr>
   \<and> (hc v (darkMode h) \<or> updateRequested h
        \<or> ((attributes h ''dark-mode'' \<noteq> None) = ToBoolean js (darkMode h)
            \<and> ToBoolean js v = ToBoolean js (darkMode h)) \<longrightarrow>
        (attributes (performUpdate js TitleBarTypes_properties
                       (set_darkMode TitleBarTypes_properties hc v h)) ''dark-mode'' \<noteq> None)
          = ToBoolean js v)
   \<and> darkMode (attributeChangedCallback TitleBarTypes_properties hc ''dark-mode'' a h)
       = JBool (a \<noteq> None)
   \<and> attributes (attributeChangedCallback TitleBarTypes_properties hc ''dark-mode'' a h)
        ''dark-mode'' = a"
proof -
  have declared: "map_of TitleBarTypes_properties ''darkMode''
      = Some \<lparr>type = Boolean, reflect = True, attribute = Some ''dark-mode''\<rparr>"
    by (simp add: TitleBarTypes_properties_def)
  have to_attribute: "hc v (darkMode h) \<or> updateRequested h
      \<or> ((attributes h ''dark-mode'' \<noteq> None) = ToBoolean js (darkMode h)
          \<and> ToBoolean js v = ToBoolean js (darkMode h)) \<longrightarrow>
      (attributes (performUpdate js TitleBarTypes_properties
                     (set_darkMode TitleBarTypes_properties hc v h)) ''dark-mode'' \<noteq> None)
        = ToBoolean js v"
    by (auto simp add: set_darkMode_def assign_def requestUpdate_def performUpdate_def
        observed_declared darkMode_attribute Let_def)
  have from_attribute:
    "darkMode (attributeChangedCallback TitleBarTypes_properties hc ''dark-mode'' a h)
       = JBool (a \<noteq> None)"
    "attributes (attributeChangedCallback TitleBarTypes_properties hc ''dark-mode'' a h)
       ''dark-mode'' = a"
    by (simp_all add: attributeChangedCallback_def set_darkMode_def assign_def
        requestUpdate_def observed_declared darkMode_attribute Let_def)
  from declared to_attribute from_attribute show ?thesis by blast
qed

theorem darkMode_reflected_both_ways_witness:
  "attributes (performUpdate int_ops TitleBarTypes_properties
       (set_darkMode TitleBarTypes_properties (\<lambda>a b. a \<noteq> b) (JBool True)
          \<lparr>title = JStr ''You are awesome'', darkMode = JBool False,
           bar = [''x'' \<mapsto> JNum 0, ''y'' \<mapsto> JNum 0, ''title'' \<mapsto> JStr ''I am dot''],
           formatter = Null, attributes = Map.empty, updateRequested = False,
           renderCount = 1\<rparr>)) ''dark-mode'' \<noteq> None"
  using darkMode_reflected_both_ways
      [of "\<lambda>a b. a \<noteq> b" "JBool True"
          "\<lparr>title = JStr ''You are awesome'', darkMode = JBool False,
            bar = [''x'' \<mapsto> JNum (0::int), ''y'' \<mapsto> JNum 0, ''title'' \<mapsto> JStr ''I am dot''],
            formatter = Null, attributes = Map.empty, updateRequested = False,
            renderCount = 1\<rparr>" int_ops]
  by simp

end
